theory Spec2Isabelle
  imports Main
begin

section \<open>Python strings, lists and dictionaries\<close>

text \<open>
  The program is the single file \<^verbatim>\<open>MMMmain.py\<close>. Its text values are Python strings; here a
  string is a list of characters, one \<^typ>\<open>char\<close> per code point, so the model covers the code
  points 0 to 255. The character classes below are Python's for that range:
  \<^verbatim>\<open>str.isspace\<close> (which is also the regular expression class \<^verbatim>\<open>\s\<close> and what
  \<^verbatim>\<open>str.strip\<close> removes), the class \<^verbatim>\<open>\w\<close> (alphanumeric or underscore) and
  \<^verbatim>\<open>str.isdigit\<close>.
\<close>

definition is_space :: "char \<Rightarrow> bool" where
  "is_space c =
     (let n = (of_char c :: nat)
      in (9 \<le> n \<and> n \<le> 13) \<or> (28 \<le> n \<and> n \<le> 32) \<or> n = 133 \<or> n = 160)"

definition is_word :: "char \<Rightarrow> bool" where
  "is_word c =
     (let n = (of_char c :: nat)
      in (48 \<le> n \<and> n \<le> 57) \<or> (65 \<le> n \<and> n \<le> 90) \<or> n = 95 \<or> (97 \<le> n \<and> n \<le> 122)
         \<or> n = 170 \<or> n = 178 \<or> n = 179 \<or> n = 181 \<or> n = 185 \<or> n = 186
         \<or> (188 \<le> n \<and> n \<le> 190) \<or> (192 \<le> n \<and> n \<le> 214) \<or> (216 \<le> n \<and> n \<le> 246)
         \<or> 248 \<le> n)"

definition is_digit :: "char \<Rightarrow> bool" where
  "is_digit c =
     (let n = (of_char c :: nat)
      in (48 \<le> n \<and> n \<le> 57) \<or> n = 178 \<or> n = 179 \<or> n = 185)"

definition isdigit :: "string \<Rightarrow> bool" where
  \<comment> \<open>\<^verbatim>\<open>s.isdigit()\<close>: at least one character, and all of them digits\<close>
  "isdigit s = (s \<noteq> [] \<and> list_all is_digit s)"

definition strip :: "string \<Rightarrow> string" where
  \<comment> \<open>\<^verbatim>\<open>s.strip()\<close>\<close>
  "strip s = rev (dropWhile is_space (rev (dropWhile is_space s)))"


fun split_at :: "char \<Rightarrow> string \<Rightarrow> string \<Rightarrow> string list" where
  "split_at sep cur [] = [rev cur]"
| "split_at sep cur (c # cs) =
     (if c = sep then rev cur # split_at sep [] cs else split_at sep (c # cur) cs)"

definition split :: "string \<Rightarrow> char \<Rightarrow> string list" where
  \<comment> \<open>\<^verbatim>\<open>s.split(sep)\<close> for a one-character separator: never an empty list\<close>
  "split s sep = split_at sep [] s"

fun join :: "string \<Rightarrow> string list \<Rightarrow> string" where
  \<comment> \<open>\<^verbatim>\<open>sep.join(xs)\<close>\<close>
  "join sep [] = []"
| "join sep [x] = x"
| "join sep (x # y # ys) = x @ sep @ join sep (y # ys)"

fun str_nat :: "nat \<Rightarrow> string" where
  \<comment> \<open>the decimal text of a non-negative integer, as an f-string renders it\<close>
  "str_nat n =
     (if n < 10 then [''0123456789'' ! n]
      else str_nat (n div 10) @ [''0123456789'' ! (n mod 10)])"

declare str_nat.simps [simp del]

text \<open>
  A Python dictionary keeps its keys in insertion order; it is an association list with
  distinct keys. Assigning to a present key replaces the value in place, assigning to an
  absent key appends.
\<close>

type_synonym ('k, 'v) dict = "('k \<times> 'v) list"

definition keys :: "('k, 'v) dict \<Rightarrow> 'k list" where
  "keys d = map fst d"

definition dict_values :: "('k, 'v) dict \<Rightarrow> 'v list" where
  "dict_values d = map snd d"

definition has_key :: "'k \<Rightarrow> ('k, 'v) dict \<Rightarrow> bool" where
  \<comment> \<open>\<^verbatim>\<open>k in d\<close>\<close>
  "has_key k d = (k \<in> set (keys d))"

fun dict_set :: "('k, 'v) dict \<Rightarrow> 'k \<Rightarrow> 'v \<Rightarrow> ('k, 'v) dict" where
  \<comment> \<open>\<^verbatim>\<open>d[k] = v\<close>\<close>
  "dict_set [] k v = [(k, v)]"
| "dict_set ((k', v') # d) k v =
     (if k' = k then (k, v) # d else (k', v') # dict_set d k v)"

definition dict_del :: "('k, 'v) dict \<Rightarrow> 'k \<Rightarrow> ('k, 'v) dict" where
  \<comment> \<open>\<^verbatim>\<open>del d[k]\<close> on a present key\<close>
  "dict_del d k = filter (\<lambda>kv. fst kv \<noteq> k) d"

definition get_or :: "('k, 'v) dict \<Rightarrow> 'k \<Rightarrow> 'v \<Rightarrow> 'v" where
  \<comment> \<open>\<^verbatim>\<open>d.get(k, default)\<close>\<close>
  "get_or d k dflt = (case map_of d k of None \<Rightarrow> dflt | Some v \<Rightarrow> v)"

section \<open>Regular expressions\<close>

text \<open>
  The parser is written with Python's \<^verbatim>\<open>re\<close> module. A pattern is a value of
  \<^typ>\<open>string\<close> in the source and a term of the datatype below here, and the matcher is a
  backtracking one: \<open>ms r st\<close> lists every way in which \<open>r\<close> matches a prefix of the text
  of \<open>st\<close>, in the order in which Python tries them, so that the head of the list is the
  match Python reports. A greedy star tries one more repetition first, a lazy star tries to
  stop first, an alternative tries its left branch first.
\<close>

datatype cclass =
    Lit char                  \<comment> \<open>the character itself\<close>
  | Space                     \<comment> \<open>\<^verbatim>\<open>\s\<close>\<close>
  | Word                      \<comment> \<open>\<^verbatim>\<open>\w\<close>\<close>
  | Dot                       \<comment> \<open>\<^verbatim>\<open>.\<close>: any character but a newline\<close>
  | DotAll                    \<comment> \<open>\<^verbatim>\<open>.\<close> under \<^verbatim>\<open>re.DOTALL\<close>: any character\<close>
  | NoneOf "char list"        \<comment> \<open>\<^verbatim>\<open>[^...]\<close>\<close>
  | Union cclass cclass       \<comment> \<open>\<^verbatim>\<open>[...]\<close> of several classes\<close>

fun cmatch :: "cclass \<Rightarrow> char \<Rightarrow> bool" where
  "cmatch (Lit a) c = (c = a)"
| "cmatch Space c = is_space c"
| "cmatch Word c = is_word c"
| "cmatch Dot c = (c \<noteq> CHR 0x0A)"
| "cmatch DotAll c = True"
| "cmatch (NoneOf cs) c = (c \<notin> set cs)"
| "cmatch (Union a b) c = (cmatch a c \<or> cmatch b c)"

datatype regex =
    Eps                       \<comment> \<open>the empty pattern\<close>
  | Atom cclass               \<comment> \<open>one character of a class\<close>
  | Seq regex regex           \<comment> \<open>\<^verbatim>\<open>ab\<close>\<close>
  | Alt regex regex           \<comment> \<open>\<^verbatim>\<open>a|b\<close>\<close>
  | Star regex                \<comment> \<open>\<^verbatim>\<open>a*\<close>, greedy\<close>
  | LazyStar regex            \<comment> \<open>\<^verbatim>\<open>a*?\<close>\<close>
  | Group nat regex           \<comment> \<open>\<^verbatim>\<open>(a)\<close>, the capturing group of that number\<close>

fun Str :: "string \<Rightarrow> regex" where
  \<comment> \<open>a literal word of the pattern\<close>
  "Str [] = Eps"
| "Str (c # cs) = Seq (Atom (Lit c)) (Str cs)"

fun Seqs :: "regex list \<Rightarrow> regex" where
  \<comment> \<open>the parts of a pattern, one after the other\<close>
  "Seqs [] = Eps"
| "Seqs [r] = r"
| "Seqs (r # rs) = Seq r (Seqs rs)"

definition Plus :: "regex \<Rightarrow> regex" where
  \<comment> \<open>\<^verbatim>\<open>a+\<close>, greedy\<close>
  "Plus r = Seq r (Star r)"

definition Opt :: "regex \<Rightarrow> regex" where
  \<comment> \<open>\<^verbatim>\<open>a?\<close>, greedy: with \<open>a\<close> first, without it second\<close>
  "Opt r = Alt r Eps"

text \<open>
  A matcher state is the groups captured so far (the latest capture of a group first) and
  the text that is left.
\<close>

type_synonym mstate = "(nat \<times> string) list \<times> string"

function ms :: "regex \<Rightarrow> mstate \<Rightarrow> mstate list" where
  "ms Eps st = [st]"
| "ms (Atom c) (g, []) = []"
| "ms (Atom c) (g, x # xs) = (if cmatch c x then [(g, xs)] else [])"
| "ms (Seq a b) st = concat (map (ms b) (ms a st))"
| "ms (Alt a b) st = ms a st @ ms b st"
| "ms (Star a) (g, s) =
     concat (map (\<lambda>st'. if length (snd st') < length s then ms (Star a) st' else [])
                 (ms a (g, s))) @ [(g, s)]"
| "ms (LazyStar a) (g, s) =
     (g, s) # concat (map (\<lambda>st'. if length (snd st') < length s then ms (LazyStar a) st' else [])
                          (ms a (g, s)))"
| "ms (Group n a) (g, s) =
     map (\<lambda>st'. ((n, take (length s - length (snd st')) s) # fst st', snd st')) (ms a (g, s))"
  by pat_completeness auto
termination
  by (relation "measures [\<lambda>(r, st). size r, \<lambda>(r, st). length (snd st)]") auto

lemmas ms_Star = ms.simps(6)

lemmas ms_LazyStar = ms.simps(7)

declare ms.simps(6,7) [simp del]

text \<open>
  A match object: the captured groups, the matched text (\<^verbatim>\<open>m.group()\<close>) and the text after
  the match. \<open>group m n\<close> is \<^verbatim>\<open>m.group(n)\<close>, with \<open>None\<close> for a group that took no part.
\<close>

record rmatch =
  groups :: "(nat \<times> string) list"
  matched :: string
  after :: string

definition group :: "rmatch \<Rightarrow> nat \<Rightarrow> string option" where
  "group m n = map_of (groups m) n"

definition match_at :: "regex \<Rightarrow> string \<Rightarrow> rmatch option" where
  \<comment> \<open>\<^verbatim>\<open>re.match(r, s)\<close>, which is also \<^verbatim>\<open>re.search('^' + r, s)\<close>: the pattern at
      the start of the text\<close>
  "match_at r s =
     (case ms r ([], s) of
        [] \<Rightarrow> None
      | st # _ \<Rightarrow> Some \<lparr>groups = fst st, matched = take (length s - length (snd st)) s,
                          after = snd st\<rparr>)"

fun search :: "regex \<Rightarrow> string \<Rightarrow> (nat \<times> rmatch) option" where
  \<comment> \<open>\<^verbatim>\<open>re.search(r, s)\<close>: the leftmost match, with \<^verbatim>\<open>m.start()\<close>\<close>
  "search r [] = map_option (Pair 0) (match_at r [])"
| "search r (c # cs) =
     (case match_at r (c # cs) of
        Some m \<Rightarrow> Some (0, m)
      | None \<Rightarrow> map_option (\<lambda>im. (Suc (fst im), snd im)) (search r cs))"

text \<open>
  \<^verbatim>\<open>re.sub\<close>, \<^verbatim>\<open>re.finditer\<close> and \<^verbatim>\<open>re.findall\<close> walk the text from left to right, take a
  match where there is one and go on after it, and step over one character where there is
  none. Every pattern that this program passes to them matches at least one character.
\<close>

function sub :: "regex \<Rightarrow> string \<Rightarrow> string \<Rightarrow> string" where
  \<comment> \<open>\<^verbatim>\<open>re.sub(r, repl, s)\<close>\<close>
  "sub r repl [] = []"
| "sub r repl (c # cs) =
     (case match_at r (c # cs) of
        None \<Rightarrow> c # sub r repl cs
      | Some m \<Rightarrow>
          if length (after m) < length (c # cs) then repl @ sub r repl (after m)
          else c # sub r repl cs)"
  by pat_completeness auto
termination
  by (relation "measure (\<lambda>(r, repl, s). length s)") auto

function finditer :: "regex \<Rightarrow> string \<Rightarrow> rmatch list" where
  \<comment> \<open>\<^verbatim>\<open>re.finditer(r, s)\<close>\<close>
  "finditer r [] = []"
| "finditer r (c # cs) =
     (case match_at r (c # cs) of
        None \<Rightarrow> finditer r cs
      | Some m \<Rightarrow>
          if length (after m) < length (c # cs) then m # finditer r (after m)
          else finditer r cs)"
  by pat_completeness auto
termination
  by (relation "measure (\<lambda>(r, s). length s)") auto

definition group_text :: "rmatch \<Rightarrow> nat \<Rightarrow> string" where
  \<comment> \<open>what \<^verbatim>\<open>re.findall\<close> reports for a group: the empty string when it took no part\<close>
  "group_text m n = (case group m n of None \<Rightarrow> [] | Some t \<Rightarrow> t)"

definition findall2 :: "regex \<Rightarrow> string \<Rightarrow> (string \<times> string) list" where
  \<comment> \<open>\<^verbatim>\<open>re.findall(r, s)\<close> for a pattern with two groups\<close>
  "findall2 r s = map (\<lambda>m. (group_text m 1, group_text m 2)) (finditer r s)"

section \<open>The parser: \<^verbatim>\<open>SystemVerilogParser\<close>\<close>

subsection \<open>The patterns of the source\<close>

definition spaces :: regex where
  \<comment> \<open>\<^verbatim>\<open>\s+\<close>\<close>
  "spaces = Plus (Atom Space)"

definition opt_spaces :: regex where
  \<comment> \<open>\<^verbatim>\<open>\s*\<close>\<close>
  "opt_spaces = Star (Atom Space)"

definition net_type :: regex where
  \<comment> \<open>\<^verbatim>\<open>(?:wire|reg|logic)\<close>\<close>
  "net_type = Alt (Str ''wire'') (Alt (Str ''reg'') (Str ''logic''))"






definition dimension_pattern :: regex where
  \<comment> \<open>\<^verbatim>\<open>\[.*?\]\<close>\<close>
  "dimension_pattern = Seqs [Atom (Lit CHR ''[''), LazyStar (Atom Dot), Atom (Lit CHR '']'')]"


definition block_pattern :: "string \<Rightarrow> regex" where
  \<comment> \<open>\<^verbatim>\<open>input\s+(?:wire|reg|logic)?\s*(?:\[(.*?)\])?\s*([\w\s,]+)\s*;\<close>, and the same
      for \<^verbatim>\<open>output\<close> and \<^verbatim>\<open>inout\<close>\<close>
  "block_pattern kw =
     Seqs [Str kw, spaces, Opt net_type, opt_spaces,
           Opt (Seqs [Atom (Lit CHR ''[''), Group 1 (LazyStar (Atom Dot)), Atom (Lit CHR '']'')]),
           opt_spaces,
           Group 2 (Plus (Atom (Union Word (Union Space (Lit CHR '',''))))),
           opt_spaces, Atom (Lit CHR '';'')]"




definition port_pattern :: regex where
  \<comment> \<open>\<^verbatim>\<open>(\w+)(?:\[([^\]]+)\])?\<close>\<close>
  "port_pattern =
     Seq (Group 1 (Plus (Atom Word)))
       (Opt (Seqs [Atom (Lit CHR ''[''), Group 2 (Plus (Atom (NoneOf '']''))),
                   Atom (Lit CHR '']'')]))"

subsection \<open>Splitting a group of names\<close>

definition extract_port_name :: "string \<Rightarrow> string" where
  "extract_port_name port_text = strip (sub dimension_pattern [] port_text)"

text \<open>
  The loop of \<^verbatim>\<open>split_comma_list\<close> over the characters of \<^verbatim>\<open>port_list + ','\<close>, with
  its three variables. The bracket depth is a Python integer and may go below zero.
\<close>

fun split_loop :: "string list \<Rightarrow> string \<Rightarrow> int \<Rightarrow> string \<Rightarrow> string list" where
  "split_loop ports current bracket_depth [] = ports"
| "split_loop ports current bracket_depth (c # cs) =
     (if c = CHR ''['' then split_loop ports (current @ [c]) (bracket_depth + 1) cs
      else if c = CHR '']'' then split_loop ports (current @ [c]) (bracket_depth - 1) cs
      else if c = CHR '','' \<and> bracket_depth = 0 then
        split_loop
          (if strip current \<noteq> [] \<and> extract_port_name (strip current) \<noteq> []
           then ports @ [extract_port_name (strip current)] else ports)
          [] bracket_depth cs
      else split_loop ports (current @ [c]) bracket_depth cs)"

definition split_comma_list :: "string \<Rightarrow> string list" where
  "split_comma_list port_list = split_loop [] [] 0 (port_list @ '','')"

subsection \<open>The inline-direction style: \<^verbatim>\<open>parse_ansi_port_list\<close>\<close>







lemma match_at_after: "match_at r s = Some m \<Longrightarrow> (groups m, after m) \<in> set (ms r ([], s))"
proof -
  assume a: "match_at r s = Some m"
  then obtain st sts where ms: "ms r ([], s) = st # sts"
    by (cases "ms r ([], s)") (simp_all add: match_at_def)
  with a have "groups m = fst st" "after m = snd st"
    by (auto simp: match_at_def)
  with ms show ?thesis
    by simp
qed








subsection \<open>The separate-declaration style: \<^verbatim>\<open>parse_port_list\<close> and \<^verbatim>\<open>parse_module_body\<close>\<close>


text \<open>
  The two nested loops of \<^verbatim>\<open>parse_module_body\<close> over the declarations of one direction:
  \<open>record_ports\<close> is the inner loop over the names of one declaration, \<open>record_blocks\<close> the
  outer loop over the declarations, each a pair of a width and a text of names. The list
  \<open>found\<close> is \<^verbatim>\<open>inputs\<close>, \<^verbatim>\<open>outputs\<close> or \<^verbatim>\<open>inouts\<close>.
\<close>

fun record_ports :: "string list \<Rightarrow> string \<Rightarrow> string list \<Rightarrow> string list \<Rightarrow> string list" where
  "record_ports port_names width [] found = found"
| "record_ports port_names width (port # rest) found =
     record_ports port_names width rest
       (if port \<in> set port_names \<and> port \<notin> set found
        then found @ [if width \<noteq> [] then port @ ''['' @ width @ '']'' else port]
        else found)"

fun record_blocks :: "string list \<Rightarrow> (string \<times> string) list \<Rightarrow> string list \<Rightarrow> string list" where
  "record_blocks port_names [] found = found"
| "record_blocks port_names ((width, block) # rest) found =
     record_blocks port_names rest
       (record_ports port_names width (split_comma_list block) found)"

definition parse_module_body ::
  "string \<Rightarrow> string list \<Rightarrow> string list \<times> string list \<times> string list" where
  "parse_module_body module_body port_names =
     (let input_blocks = findall2 (block_pattern ''input'') module_body;
          output_blocks = findall2 (block_pattern ''output'') module_body;
          inout_blocks = findall2 (block_pattern ''inout'') module_body
      in (record_blocks port_names input_blocks [],
          record_blocks port_names output_blocks [],
          record_blocks port_names inout_blocks []))"

subsection \<open>\<^verbatim>\<open>parse_file\<close>\<close>

text \<open>
  What the parser stores for a module: the dictionary with the keys \<^verbatim>\<open>"inputs"\<close> and
  \<^verbatim>\<open>"outputs"\<close>.
\<close>

record port_dict =
  inputs :: "string list"
  outputs :: "string list"



text \<open>
  Reading the file is the one step of \<^verbatim>\<open>parse_file\<close> that the environment decides:
  \<^verbatim>\<open>open\<close> and \<^verbatim>\<open>read\<close> return the text of the file or raise. The file system is a
  function from file names to one or the other. \<open>try_block\<close> is the block under
  \<^verbatim>\<open>try\<close>: it starts from the dictionary \<^verbatim>\<open>modules\<close>, and it ends with the dictionary as
  it stands then and with the exception, if one was raised. \<^verbatim>\<open>parse_file\<close> catches the
  exception, prints it and returns the dictionary.
\<close>

datatype exn = OSError | UnicodeDecodeError | KeyError | ValueError




section \<open>Instances: \<^verbatim>\<open>ModuleItem\<close>\<close>

text \<open>
  Of a \<^verbatim>\<open>ModuleItem\<close> the model keeps the three fields that the netlist and the generator
  read; the others are geometry. The fields are set when the item is made and never
  assigned again. The source compares items with \<^verbatim>\<open>==\<close>, which for these objects is
  identity; the items of a canvas are stored under their names, which are distinct, so
  two of them are the same object exactly when the records are equal.
\<close>

record ModuleItem =
  name :: string
  ports :: port_dict
  port_widths :: "(string, string) dict"

text \<open>
  The inner loop of \<^verbatim>\<open>parse_port_widths\<close> over the entries of one port list, with the
  dictionary of widths and the list \<^verbatim>\<open>new_ports\<close>.
\<close>

fun port_widths_loop ::
  "string list \<Rightarrow> (string, string) dict \<Rightarrow> string list
     \<Rightarrow> (string, string) dict \<times> string list" where
  "port_widths_loop [] widths new_ports = (widths, new_ports)"
| "port_widths_loop (port # rest) widths new_ports =
     (case search port_pattern port of
        Some im \<Rightarrow>
          port_widths_loop rest
            (dict_set widths (group_text (snd im) 1) (group_text (snd im) 2))
            (new_ports @ [group_text (snd im) 1])
      | None \<Rightarrow> port_widths_loop rest (dict_set widths port []) (new_ports @ [port]))"

definition parse_port_widths :: "ModuleItem \<Rightarrow> ModuleItem" where
  "parse_port_widths self =
     (let ins = port_widths_loop (inputs (ports self)) (port_widths self) [];
          outs = port_widths_loop (outputs (ports self)) (fst ins) []
      in self\<lparr>ports := \<lparr>inputs = snd ins, outputs = snd outs\<rparr>, port_widths := fst outs\<rparr>)"

definition new_ModuleItem :: "string \<Rightarrow> port_dict \<Rightarrow> ModuleItem" where
  \<comment> \<open>\<^verbatim>\<open>ModuleItem(name, ports)\<close>\<close>
  "new_ModuleItem nm prts = parse_port_widths \<lparr>name = nm, ports = prts, port_widths = []\<rparr>"

fun first_occurrences :: "'a list \<Rightarrow> 'a list \<Rightarrow> 'a list" where
  "first_occurrences seen [] = []"
| "first_occurrences seen (x # xs) =
     (if x \<in> set seen then first_occurrences seen xs
      else x # first_occurrences (x # seen) xs)"

definition port_positions :: "ModuleItem \<Rightarrow> string list" where
  \<comment> \<open>the keys of \<^verbatim>\<open>port_positions\<close> once the item has been painted: the inputs, then
      the outputs, a name at the place where it came first\<close>
  "port_positions m = first_occurrences [] (inputs (ports m) @ outputs (ports m))"

section \<open>The netlist: \<^verbatim>\<open>DesignCanvas\<close>\<close>

text \<open>
  A wire has its two items and its two port names. Wires are compared by identity as
  well, and two wires may have the same ends, so each wire carries the number under which
  it was created; the canvas counts the wires it has created.
\<close>

record WireItem =
  wire_id :: nat
  start_module :: ModuleItem
  end_module :: ModuleItem
  start_port :: string
  end_port :: string

record DesignCanvas =
  modules :: "(string, ModuleItem) dict"
  wires :: "WireItem list"
  wires_created :: nat

definition new_DesignCanvas :: DesignCanvas where
  "new_DesignCanvas = \<lparr>modules = [], wires = [], wires_created = 0\<rparr>"

definition get_module_type :: "string \<Rightarrow> string" where
  "get_module_type module_name =
     (if CHR ''_'' \<in> set module_name \<and> isdigit (last (split module_name CHR ''_''))
      then join ''_'' (butlast (split module_name CHR ''_''))
      else module_name)"

subsection \<open>Connecting: \<^verbatim>\<open>mouseReleaseEvent\<close>\<close>

text \<open>
  A wire is drawn from the port where the button went down (\<^verbatim>\<open>start_module\<close>,
  \<^verbatim>\<open>start_port\<close>) to the place where it is released. Where that place is enters the code
  only through the test that a port lies within ten pixels of it; the test is the
  parameter \<open>hit\<close>. The two warnings of the method are the messages, the state of the
  loops is \<open>release_state\<close>.
\<close>

datatype message = InputAlreadyConnected | InvalidConnection

record release_state =
  from_module :: ModuleItem
  from_port :: string
  valid_connection :: bool
  canvas :: DesignCanvas
  warnings :: "message list"

definition input_connected :: "WireItem list \<Rightarrow> ModuleItem \<Rightarrow> string \<Rightarrow> bool" where
  \<comment> \<open>some wire ends in that port of that item\<close>
  "input_connected ws m p = list_ex (\<lambda>wire. end_module wire = m \<and> end_port wire = p) ws"

definition add_wire :: "ModuleItem \<Rightarrow> string \<Rightarrow> ModuleItem \<Rightarrow> string \<Rightarrow> DesignCanvas \<Rightarrow> DesignCanvas" where
  \<comment> \<open>\<^verbatim>\<open>wire = WireItem(...)\<close> and \<^verbatim>\<open>self.wires.append(wire)\<close>\<close>
  "add_wire sm sp em ep c =
     c\<lparr>wires := wires c @ [\<lparr>wire_id = wires_created c, start_module = sm, end_module = em,
                              start_port = sp, end_port = ep\<rparr>],
       wires_created := Suc (wires_created c)\<rparr>"

definition finish_connection :: "ModuleItem \<Rightarrow> string \<Rightarrow> release_state \<Rightarrow> release_state" where
  \<comment> \<open>the branch under \<^verbatim>\<open>if valid_connection\<close>, for the end \<open>module\<close>, \<open>port\<close>\<close>
  "finish_connection module port st =
     (if port \<in> set (inputs (ports module)) \<and> input_connected (wires (canvas st)) module port
      then st\<lparr>warnings := warnings st @ [InputAlreadyConnected]\<rparr>
      else st\<lparr>canvas := add_wire (from_module st) (from_port st) module port (canvas st)\<rparr>)"

definition release_on_port :: "ModuleItem \<Rightarrow> string \<Rightarrow> release_state \<Rightarrow> release_state" where
  \<comment> \<open>the body of the inner loop for the port that is hit\<close>
  "release_on_port module port st =
     (if from_port st \<in> set (outputs (ports (from_module st))) \<and> port \<in> set (inputs (ports module))
      then finish_connection module port (st\<lparr>valid_connection := True\<rparr>)
      else if from_port st \<in> set (inputs (ports (from_module st)))
              \<and> port \<in> set (outputs (ports module))
      then finish_connection (from_module st) (from_port st)
             (st\<lparr>valid_connection := True, from_module := module, from_port := port\<rparr>)
      else if valid_connection st then finish_connection module port st
      else st\<lparr>warnings := warnings st @ [InvalidConnection]\<rparr>)"

definition release_on_module ::
  "(ModuleItem \<Rightarrow> string \<Rightarrow> bool) \<Rightarrow> release_state \<Rightarrow> ModuleItem \<Rightarrow> release_state" where
  \<comment> \<open>the body of the outer loop: the first port of the item that is hit, if any\<close>
  "release_on_module hit st module =
     (if module = from_module st then st
      else case find (hit module) (port_positions module) of
             None \<Rightarrow> st
           | Some port \<Rightarrow> release_on_port module port st)"

definition mouseReleaseEvent ::
  "(ModuleItem \<Rightarrow> string \<Rightarrow> bool) \<Rightarrow> ModuleItem \<Rightarrow> string \<Rightarrow> DesignCanvas
     \<Rightarrow> DesignCanvas \<times> message list" where
  \<comment> \<open>a release of the left button while a wire is being drawn\<close>
  "mouseReleaseEvent hit start_mod start_prt c =
     (let st = foldl (release_on_module hit)
                 \<lparr>from_module = start_mod, from_port = start_prt, valid_connection = False,
                  canvas = c, warnings = []\<rparr>
                 (dict_values (modules c))
      in (canvas st, warnings st))"

definition connect ::
  "ModuleItem \<Rightarrow> string \<Rightarrow> ModuleItem \<Rightarrow> string \<Rightarrow> DesignCanvas \<Rightarrow> DesignCanvas \<times> message list" where
  \<comment> \<open>a wire drawn from one port and released on exactly one other port\<close>
  "connect src src_port dst dst_port c =
     mouseReleaseEvent (\<lambda>m p. m = dst \<and> p = dst_port) src src_port c"

subsection \<open>Deleting: \<^verbatim>\<open>delete_selected_items\<close>\<close>

datatype item = Module ModuleItem | Wire WireItem

definition touching :: "ModuleItem \<Rightarrow> WireItem \<Rightarrow> bool" where
  "touching m wire = (start_module wire = m \<or> end_module wire = m)"

fun delete_items :: "item list \<Rightarrow> DesignCanvas \<Rightarrow> DesignCanvas \<times> exn option" where
  \<comment> \<open>the loop over the selected items; an exception ends it and leaves the canvas as it
      is then\<close>
  "delete_items [] c = (c, None)"
| "delete_items (Module m # rest) c =
     (let wires_to_remove = filter (touching m) (wires c);
          c = c\<lparr>wires := foldl (\<lambda>ws wire. remove1 wire ws) (wires c) wires_to_remove\<rparr>
      in if has_key (name m) (modules c)
         then delete_items rest (c\<lparr>modules := dict_del (modules c) (name m)\<rparr>)
         else (c, Some KeyError))"
| "delete_items (Wire w # rest) c =
     (if w \<in> set (wires c) then delete_items rest (c\<lparr>wires := remove1 w (wires c)\<rparr>)
      else (c, Some ValueError))"

definition delete_selected_items :: "item list \<Rightarrow> DesignCanvas \<Rightarrow> DesignCanvas \<times> exn option" where
  "delete_selected_items selected_items c = delete_items selected_items c"

definition removeInstance :: "ModuleItem \<Rightarrow> DesignCanvas \<Rightarrow> DesignCanvas \<times> exn option" where
  \<comment> \<open>deleting with one instance selected\<close>
  "removeInstance m c = delete_selected_items [Module m] c"

definition removeConnection :: "WireItem \<Rightarrow> DesignCanvas \<Rightarrow> DesignCanvas \<times> exn option" where
  \<comment> \<open>deleting with one wire selected\<close>
  "removeConnection w c = delete_selected_items [Wire w] c"

section \<open>The main window: \<^verbatim>\<open>SystemVerilogDesigner\<close>\<close>

subsection \<open>Placing an instance\<close>

text \<open>
  The loop that looks for a free instance name, with its two variables
  \<^verbatim>\<open>instance_name\<close> and \<^verbatim>\<open>count\<close>; \<open>d\<close> is \<^verbatim>\<open>self.canvas.modules\<close>.
\<close>

function instance_name_loop ::
  "(string, ModuleItem) dict \<Rightarrow> string \<Rightarrow> string \<Rightarrow> nat \<Rightarrow> string" where
  "instance_name_loop d module_name instance_name count =
     (if has_key instance_name d
      then instance_name_loop d module_name (module_name @ ''_'' @ str_nat count) (count + 1)
      else instance_name)"
  by pat_completeness auto

text \<open>
  The loop ends because the decimal texts of different numbers differ, so that only finitely
  many of the candidates are names of the canvas. \<open>digits_value\<close> reads a decimal text
  back; \<open>taken_from\<close> is the set of the numbers, from \<^verbatim>\<open>count\<close> on, whose candidate is taken.
\<close>

definition digits_value :: "string \<Rightarrow> nat" where
  "digits_value s = foldl (\<lambda>a c. 10 * a + (of_char c - 48)) 0 s"

lemma digit_char_value: "d < 10 \<Longrightarrow> (of_char (''0123456789'' ! d) :: nat) = 48 + d"
proof -
  assume "d < 10"
  then have "d \<in> {0, 1, 2, 3, 4, 5, 6, 7, 8, 9}"
    by auto
  then show ?thesis
    by auto
qed

lemma digits_value_str_nat: "digits_value (str_nat n) = n"
proof (induction n rule: str_nat.induct)
  case (1 n)
  show ?case
  proof (cases "n < 10")
    case True
    then show ?thesis
      by (simp add: str_nat.simps[of n] digits_value_def digit_char_value)
  next
    case False
    with 1 have "digits_value (str_nat (n div 10)) = n div 10"
      by simp
    with False show ?thesis
      by (simp add: str_nat.simps[of n] digits_value_def digit_char_value)
  qed
qed

lemma inj_str_nat: "inj str_nat"
  by (rule inj_on_inverseI[where g = digits_value]) (rule digits_value_str_nat)

lemma finite_numbered: "finite {k. mname @ ''_'' @ str_nat k \<in> set ks}"
proof -
  have "inj (\<lambda>k. mname @ ''_'' @ str_nat k)"
    using inj_str_nat by (auto simp: inj_def)
  then have "finite ((\<lambda>k. mname @ ''_'' @ str_nat k) -` set ks)"
    by (intro finite_vimageI) simp_all
  then show ?thesis
    by (simp add: vimage_def)
qed

definition taken_from :: "(string, ModuleItem) dict \<Rightarrow> string \<Rightarrow> nat \<Rightarrow> nat set" where
  "taken_from d mname count =
     {k. count \<le> k \<and> mname @ ''_'' @ str_nat k \<in> set (keys d)}"

lemma finite_taken_from: "finite (taken_from d mname count)"
  using finite_numbered[of mname "keys d"] by (simp add: taken_from_def)

lemma taken_from_Suc:
  "taken_from d mname (Suc count) = taken_from d mname count - {count}"
  by (auto simp: taken_from_def)

lemma card_taken_from_le:
  "card (taken_from d mname (Suc count)) \<le> card (taken_from d mname count)"
  unfolding taken_from_Suc by (intro card_mono finite_taken_from) auto

lemma card_taken_from_less:
  assumes "mname @ ''_'' @ str_nat count \<in> set (keys d)"
  shows "card (taken_from d mname (Suc count)) < card (taken_from d mname count)"
proof -
  from assms have "count \<in> taken_from d mname count"
    by (simp add: taken_from_def)
  then show ?thesis
    unfolding taken_from_Suc by (intro card_Diff1_less finite_taken_from)
qed

termination instance_name_loop
proof (relation "measure (\<lambda>(d, mname, instance_name, count).
          (if has_key instance_name d then 1 else 0) + 2 * card (taken_from d mname count))",
       goal_cases)
  case 1
  show ?case by simp
next
  case (2 d mname instance_name count)
  then show ?case
    using card_taken_from_le[of d mname count] card_taken_from_less[of mname count d]
    by (auto simp: has_key_def)
qed

declare instance_name_loop.simps [simp del]

definition unique_instance_name :: "(string, ModuleItem) dict \<Rightarrow> string \<Rightarrow> string" where
  \<comment> \<open>\<^verbatim>\<open>instance_name = module_name\<close>, \<^verbatim>\<open>count = 1\<close> and the loop\<close>
  "unique_instance_name d module_name = instance_name_loop d module_name module_name 1"

definition add_module_to_canvas :: "string \<Rightarrow> port_dict \<Rightarrow> DesignCanvas \<Rightarrow> DesignCanvas" where
  "add_module_to_canvas module_name prts c =
     (let instance_name = unique_instance_name (modules c) module_name;
          module = new_ModuleItem instance_name prts
      in c\<lparr>modules := dict_set (modules c) instance_name module\<rparr>)"

text \<open>
  The window has the library of module interfaces (\<^verbatim>\<open>self.module_library.modules\<close>) and the
  canvas. \<^verbatim>\<open>add_module_from_library\<close> hands the dictionary of the library entry itself to
  the new item, whose \<^verbatim>\<open>parse_port_widths\<close> assigns the cleaned port lists to that
  dictionary: the entry of the library changes with it.
\<close>

record SystemVerilogDesigner =
  module_library :: "(string, port_dict) dict"
  design :: DesignCanvas

definition add_module_from_library :: "string \<Rightarrow> SystemVerilogDesigner \<Rightarrow> SystemVerilogDesigner" where
  "add_module_from_library module_name self =
     (case map_of (module_library self) module_name of
        None \<Rightarrow> self
      | Some prts \<Rightarrow>
          (let instance_name = unique_instance_name (modules (design self)) module_name;
               module = new_ModuleItem instance_name prts
           in self\<lparr>design := (design self)\<lparr>modules :=
                        dict_set (modules (design self)) instance_name module\<rparr>,
                   module_library := dict_set (module_library self) module_name (ports module)\<rparr>))"

definition new_design :: "DesignCanvas \<Rightarrow> DesignCanvas" where
  \<comment> \<open>\<^verbatim>\<open>new_design\<close>, confirmed\<close>
  "new_design c = c\<lparr>modules := [], wires := []\<rparr>"

subsection \<open>Generating the top level: \<^verbatim>\<open>generate_systemverilog\<close>\<close>

definition width_text :: "ModuleItem \<Rightarrow> string \<Rightarrow> string" where
  \<comment> \<open>\<^verbatim>\<open>f"[{module.port_widths[port]}]" if module.port_widths.get(port, "") else ""\<close>\<close>
  "width_text module port =
     (if get_or (port_widths module) port [] \<noteq> []
      then ''['' @ get_or (port_widths module) port [] @ '']'' else [])"

definition external_inputs :: "DesignCanvas \<Rightarrow> (string \<times> string) list" where
  "external_inputs c =
     concat (map (\<lambda>module.
        map (\<lambda>port. (name module @ ''_'' @ port, width_text module port))
          (filter (\<lambda>port. \<not> list_ex (\<lambda>wire. end_module wire = module \<and> end_port wire = port)
                                 (wires c))
             (inputs (ports module))))
       (dict_values (modules c)))"

definition external_outputs :: "DesignCanvas \<Rightarrow> (string \<times> string) list" where
  "external_outputs c =
     concat (map (\<lambda>module.
        map (\<lambda>port. (name module @ ''_'' @ port, width_text module port))
          (filter (\<lambda>port. \<not> list_ex (\<lambda>wire. start_module wire = module \<and> start_port wire = port)
                                 (wires c))
             (outputs (ports module))))
       (dict_values (modules c)))"

definition wire_name :: "WireItem \<Rightarrow> string" where
  "wire_name wire =
     ''w_'' @ (name (start_module wire) @ ''_'' @ start_port wire)
       @ ''_to_'' @ (name (end_module wire) @ ''_'' @ end_port wire)"

definition wire_declaration :: "WireItem \<Rightarrow> string" where
  "wire_declaration wire =
     ''  wire '' @ width_text (start_module wire) (start_port wire) @ wire_name wire @ '';''"

definition port_connection :: "DesignCanvas \<Rightarrow> ModuleItem \<Rightarrow> string \<Rightarrow> string" where
  \<comment> \<open>the body of the loop over \<^verbatim>\<open>module.ports["inputs"] + module.ports["outputs"]\<close>\<close>
  "port_connection c module port =
     (case (if port \<in> set (inputs (ports module))
            then find (\<lambda>wire. end_module wire = module \<and> end_port wire = port) (wires c)
            else if port \<in> set (outputs (ports module))
            then find (\<lambda>wire. start_module wire = module \<and> start_port wire = port) (wires c)
            else None) of
        Some wire \<Rightarrow> ''    .'' @ port @ ''('' @ wire_name wire @ '')''
      | None \<Rightarrow> ''    .'' @ port @ ''('' @ (name module @ ''_'' @ port) @ '')'')"

definition instantiation_lines :: "DesignCanvas \<Rightarrow> string \<times> ModuleItem \<Rightarrow> string list" where
  \<comment> \<open>the body of the loop over \<^verbatim>\<open>self.canvas.modules.items()\<close>\<close>
  "instantiation_lines c entry =
     (let module_name = fst entry;
          module = snd entry;
          module_type = get_module_type module_name;
          connections = map (port_connection c module)
                          (inputs (ports module) @ outputs (ports module))
      in [''  '' @ module_type @ '' '' @ module_name @ '' ('',
          (if connections \<noteq> [] then join ('','' @ [CHR 0x0A]) connections
           else ''    // No connections''),
          ''  );'',
          []])"

definition sv_code :: "DesignCanvas \<Rightarrow> string \<Rightarrow> string list" where
  \<comment> \<open>the list \<^verbatim>\<open>sv_code\<close> before the header is put in front of it\<close>
  "sv_code c top_name =
     (let port_lines = map (\<lambda>pw. ''  input wire '' @ snd pw @ fst pw) (external_inputs c)
                    @ map (\<lambda>pw. ''  output wire '' @ snd pw @ fst pw) (external_outputs c)
      in [''module '' @ top_name @ '' ('']
         @ [if port_lines \<noteq> [] then join ('','' @ [CHR 0x0A]) port_lines
            else ''  // No external connections'']
         @ ['');'']
         @ map wire_declaration (wires c)
         @ (if wires c \<noteq> [] then [[]] else [])
         @ concat (map (instantiation_lines c) (modules c))
         @ [''endmodule''])"

definition basename :: "string \<Rightarrow> string" where
  \<comment> \<open>\<^verbatim>\<open>os.path.basename\<close>: what follows the last slash\<close>
  "basename path = last (split path CHR ''/'')"

definition header :: "DesignCanvas \<Rightarrow> string \<Rightarrow> string \<Rightarrow> string \<Rightarrow> string list" where
  "header c filename top_name timestamp =
     [''//============================================================================='',
      ''// File: '' @ basename filename,
      ''// Date: '' @ timestamp,
      ''// Description: Top level SystemVerilog module '' @ [CHR 0x27] @ top_name @ [CHR 0x27]
        @ '' generated by SystemVerilog Designer'',
      ''// Contains the following module instances:'']
     @ map (\<lambda>module_name. ''//   - '' @ module_name) (keys (modules c))
     @ [''//============================================================================='',
        []]"

text \<open>
  The method asks for a file name and for the name of the top module, and it reads the
  clock: the answers of the two dialogs and the text of the time stamp
  (\<^verbatim>\<open>QDateTime.currentDateTime().toString("yyyy-MM-dd HH:mm:ss")\<close>) are parameters. The
  result says what the method did: the warning about an empty design, nothing (no file
  name was given), or the text that it writes and the file it writes it to.
\<close>

datatype generated = EmptyDesign | NoFile | Written string string

definition generate_systemverilog ::
  "DesignCanvas \<Rightarrow> string \<Rightarrow> string \<times> bool \<Rightarrow> string \<Rightarrow> generated" where
  "generate_systemverilog c filename top_dialog timestamp =
     (if modules c = [] then EmptyDesign
      else if filename = [] then NoFile
      else
        (let top_name = (if \<not> snd top_dialog \<or> fst top_dialog = [] then ''top''
                         else fst top_dialog)
         in Written filename
              (join [CHR 0x0A] (header c filename top_name timestamp @ sv_code c top_name))))"

section \<open>The notions of the specification\<close>


text \<open>
  The connections that come into a port of an instance; the property of a list of wires
  that no input port of any item has two of them; the property of the dictionary of
  instances that every item is stored under its own name; and the netlists that the
  operations of the canvas can produce from the empty one: placing an instance, releasing
  the mouse button at the end of a wire being drawn, deleting the selected items, and
  clearing the design. The arguments of the operations are arbitrary.
\<close>

definition inbound :: "DesignCanvas \<Rightarrow> ModuleItem \<Rightarrow> string \<Rightarrow> WireItem list" where
  "inbound c m p = filter (\<lambda>wire. end_module wire = m \<and> end_port wire = p) (wires c)"

definition single_driver :: "WireItem list \<Rightarrow> bool" where
  "single_driver ws =
     (\<forall>m p. p \<in> set (inputs (ports m)) \<longrightarrow>
        length (filter (\<lambda>wire. end_module wire = m \<and> end_port wire = p) ws) \<le> 1)"


inductive reachable :: "DesignCanvas \<Rightarrow> bool" where
  start: "reachable new_DesignCanvas"
| place: "reachable c \<Longrightarrow> reachable (add_module_to_canvas type_name interface c)"
| release: "reachable c \<Longrightarrow> reachable (fst (mouseReleaseEvent hit start_mod start_prt c))"
| delete: "reachable c \<Longrightarrow> reachable (fst (delete_selected_items selected_items c))"
| clear: "reachable c \<Longrightarrow> reachable (new_design c)"

text \<open>
  The example of the specification: the module \<^verbatim>\<open>adder\<close> with the inputs \<^verbatim>\<open>a[3:0]\<close> and
  \<^verbatim>\<open>b[3:0]\<close> and the output \<^verbatim>\<open>sum[4:0]\<close>, its two instances \<^verbatim>\<open>adder\<close> and \<^verbatim>\<open>adder_1\<close>,
  and the netlist in which \<^verbatim>\<open>adder.sum\<close> drives \<^verbatim>\<open>adder_1.a\<close>.
\<close>

definition adder_interface :: port_dict where
  "adder_interface = \<lparr>inputs = [''a[3:0]'', ''b[3:0]''], outputs = [''sum[4:0]'']\<rparr>"

definition adder_0 :: ModuleItem where
  "adder_0 = new_ModuleItem ''adder'' adder_interface"

definition adder_1 :: ModuleItem where
  "adder_1 = new_ModuleItem ''adder_1'' adder_interface"

definition two_adders :: DesignCanvas where
  "two_adders =
     add_module_to_canvas ''adder'' adder_interface
       (add_module_to_canvas ''adder'' adder_interface new_DesignCanvas)"

definition adders_connected :: DesignCanvas where
  "adders_connected = fst (connect adder_0 ''sum'' adder_1 ''a'' two_adders)"

text \<open>
  The port entries that the parser produces and that the specification speaks of: a name,
  or a name followed by a range in brackets. A name is an identifier, a non-empty word of
  \<^verbatim>\<open>\w\<close> characters; a range is a non-empty text without a closing bracket.
\<close>

definition is_identifier :: "string \<Rightarrow> bool" where
  "is_identifier n = (n \<noteq> [] \<and> list_all is_word n)"

fun entry_text :: "string \<times> string option \<Rightarrow> string" where
  "entry_text (n, None) = n"
| "entry_text (n, Some r) = n @ ''['' @ r @ '']''"

fun entry_width :: "string \<times> string option \<Rightarrow> string" where
  "entry_width (n, None) = []"
| "entry_width (n, Some r) = r"

fun well_formed_entry :: "string \<times> string option \<Rightarrow> bool" where
  "well_formed_entry (n, None) = is_identifier n"
| "well_formed_entry (n, Some r) = (is_identifier n \<and> r \<noteq> [] \<and> CHR '']'' \<notin> set r)"

text \<open>
  Two notions for reasoning about the matcher: the first result of a pattern in a state,
  which is the match that Python reports, and the numbers of the groups of a pattern.
\<close>

definition first_match :: "regex \<Rightarrow> mstate \<Rightarrow> mstate \<Rightarrow> bool" where
  "first_match r st st' = (\<exists>others. ms r st = st' # others)"

fun groups_of :: "regex \<Rightarrow> nat set" where
  "groups_of Eps = {}"
| "groups_of (Atom c) = {}"
| "groups_of (Seq a b) = groups_of a \<union> groups_of b"
| "groups_of (Alt a b) = groups_of a \<union> groups_of b"
| "groups_of (Star a) = groups_of a"
| "groups_of (LazyStar a) = groups_of a"
| "groups_of (Group n a) = insert n (groups_of a)"




section \<open>Properties\<close>

subsection \<open>An empty design\<close>

text \<open>
  Claim C8. If the netlist has no instance, \<^verbatim>\<open>generate_systemverilog\<close> shows the warning
  about the empty design and returns: it asks for no file name, builds no text and
  writes no file.
\<close>

theorem empty_design_refused:
  assumes "modules c = []"
  shows "generate_systemverilog c filename top_dialog timestamp = EmptyDesign
         \<and> (\<forall>f text. generate_systemverilog c filename top_dialog timestamp \<noteq> Written f text)"
  using assms by (simp add: generate_systemverilog_def)

theorem empty_design_refused_witness:
  "modules new_DesignCanvas = []
   \<and> generate_systemverilog new_DesignCanvas ''top.sv'' (''top'', True) ''2026-01-01 00:00:00''
       = EmptyDesign"
  using empty_design_refused[of new_DesignCanvas "''top.sv''" "(''top'', True)"
      "''2026-01-01 00:00:00''"]
  by (simp add: new_DesignCanvas_def)

subsection \<open>Instance names\<close>



lemma map_of_dict_set: "map_of (dict_set d k v) = (map_of d)(k \<mapsto> v)"
  by (induction d) (auto simp: fun_eq_iff)




subsection \<open>The generated text\<close>

text \<open>
  Claim C6. The instantiation of an instance should name the module type of the instance.
  The generator has only the instance name and takes the type to be the instance name
  without a last part that is a number. For a type whose own name ends in such a part
  that is another name: the first instance of the type \<^verbatim>\<open>mux_2\<close> is called \<^verbatim>\<open>mux_2\<close>, and
  its instantiation names the module \<^verbatim>\<open>mux\<close>.
\<close>

theorem type_name_of_mux_2:
  "keys (modules (add_module_to_canvas ''mux_2'' \<lparr>inputs = [''a''], outputs = [''y'']\<rparr>
                    new_DesignCanvas)) = [''mux_2'']
   \<and> instantiation_lines
         (add_module_to_canvas ''mux_2'' \<lparr>inputs = [''a''], outputs = [''y'']\<rparr> new_DesignCanvas)
         (hd (modules (add_module_to_canvas ''mux_2'' \<lparr>inputs = [''a''], outputs = [''y'']\<rparr>
                         new_DesignCanvas)))
       = [''  mux mux_2 ('', ''    .a(mux_2_a),'' @ [CHR 0x0A] @ ''    .y(mux_2_y)'', ''  );'', []]"
  by code_simp




subsection \<open>One driver for an input\<close>

lemma single_driver_Nil: "single_driver []"
  by (simp add: single_driver_def)

lemma single_driver_filter: "single_driver ws \<Longrightarrow> single_driver (filter P ws)"
proof -
  assume a: "single_driver ws"
  have "length (filter Q (filter P ws)) \<le> length (filter Q ws)" for Q
    by (induction ws) auto
  with a show ?thesis
    unfolding single_driver_def by (meson order_trans)
qed

lemma length_filter_remove1: "length (filter Q (remove1 x ws)) \<le> length (filter Q ws)"
  by (induction ws) auto

lemma single_driver_remove1: "single_driver ws \<Longrightarrow> single_driver (remove1 x ws)"
  unfolding single_driver_def using length_filter_remove1 by (meson order_trans)

lemma single_driver_remove_all:
  "single_driver ws \<Longrightarrow> single_driver (foldl (\<lambda>ws wire. remove1 wire ws) ws xs)"
  by (induction xs arbitrary: ws) (simp_all add: single_driver_remove1)

lemma input_connected_iff:
  "input_connected ws m p \<longleftrightarrow> filter (\<lambda>wire. end_module wire = m \<and> end_port wire = p) ws \<noteq> []"
  by (auto simp: input_connected_def list_ex_iff filter_empty_conv)

lemma single_driver_add_wire:
  assumes "single_driver (wires c)"
    and "\<not> (ep \<in> set (inputs (ports em)) \<and> input_connected (wires c) em ep)"
  shows "single_driver (wires (add_wire sm sp em ep c))"
  unfolding single_driver_def
proof (intro allI impI)
  fix m :: ModuleItem and p
  assume p: "p \<in> set (inputs (ports m))"
  let ?to = "\<lambda>wire. end_module wire = m \<and> end_port wire = p"
  show "length (filter ?to (wires (add_wire sm sp em ep c))) \<le> 1"
  proof (cases "m = em \<and> p = ep")
    case True
    with p assms(2) have "filter ?to (wires c) = []"
      by (simp add: input_connected_iff)
    then show ?thesis
      by (simp add: add_wire_def)
  next
    case False
    then have "filter ?to (wires (add_wire sm sp em ep c)) = filter ?to (wires c)"
      by (auto simp: add_wire_def)
    with assms(1) p show ?thesis
      by (simp add: single_driver_def)
  qed
qed

lemma single_driver_finish_connection:
  "single_driver (wires (canvas st)) \<Longrightarrow>
   single_driver (wires (canvas (finish_connection module port st)))"
  by (simp add: finish_connection_def single_driver_add_wire)

lemma single_driver_release_on_port:
  "single_driver (wires (canvas st)) \<Longrightarrow>
   single_driver (wires (canvas (release_on_port module port st)))"
  by (simp add: release_on_port_def single_driver_finish_connection)

lemma single_driver_release_on_module:
  "single_driver (wires (canvas st)) \<Longrightarrow>
   single_driver (wires (canvas (release_on_module hit st module)))"
  by (simp add: release_on_module_def single_driver_release_on_port split: option.splits)

lemma single_driver_release_loop:
  "single_driver (wires (canvas st)) \<Longrightarrow>
   single_driver (wires (canvas (foldl (release_on_module hit) st items)))"
  by (induction items arbitrary: st) (simp_all add: single_driver_release_on_module)

lemma single_driver_mouseReleaseEvent:
  "single_driver (wires c) \<Longrightarrow>
   single_driver (wires (fst (mouseReleaseEvent hit start_mod start_prt c)))"
  using single_driver_release_loop[of "\<lparr>from_module = start_mod, from_port = start_prt,
      valid_connection = False, canvas = c, warnings = []\<rparr>" hit "dict_values (modules c)"]
  by (simp add: mouseReleaseEvent_def Let_def)

lemma single_driver_delete_items:
  "single_driver (wires c) \<Longrightarrow> single_driver (wires (fst (delete_items selected_items c)))"
proof (induction selected_items c rule: delete_items.induct)
  case (2 m rest c)
  then show ?case
    by (simp add: Let_def single_driver_remove_all)
next
  case (3 w rest c)
  then show ?case
    by (simp add: single_driver_remove1)
qed simp

lemma single_driver_reachable: "reachable c \<Longrightarrow> single_driver (wires c)"
proof (induction rule: reachable.induct)
  case start
  show ?case
    by (simp add: new_DesignCanvas_def single_driver_Nil)
next
  case (place c type_name interface)
  then show ?case
    by (simp add: add_module_to_canvas_def Let_def)
next
  case (release c hit start_mod start_prt)
  from release.IH show ?case
    by (rule single_driver_mouseReleaseEvent)
next
  case (delete c selected_items)
  then show ?case
    by (simp add: delete_selected_items_def single_driver_delete_items)
next
  case (clear c)
  show ?case
    by (simp add: new_design_def single_driver_Nil)
qed

text \<open>
  Claim C3. In every netlist that the operations of the canvas can produce, every input
  port of every instance has at most one connection coming in; connecting, removing an
  instance and removing a connection (and placing an instance and clearing the design)
  keep it so, as each of them leads from a reachable netlist to a reachable one.
\<close>

theorem input_has_at_most_one_driver:
  assumes "reachable c" and "p \<in> set (inputs (ports m))"
  shows "length (inbound c m p) \<le> 1
         \<and> length (inbound (fst (connect src src_port dst dst_port c)) m p) \<le> 1
         \<and> length (inbound (fst (removeInstance inst c)) m p) \<le> 1
         \<and> length (inbound (fst (removeConnection w c)) m p) \<le> 1"
proof -
  have "reachable (fst (connect src src_port dst dst_port c))"
    unfolding connect_def using assms(1) by (rule reachable.release)
  moreover have "reachable (fst (removeInstance inst c))"
    unfolding removeInstance_def using assms(1) by (rule reachable.delete)
  moreover have "reachable (fst (removeConnection w c))"
    unfolding removeConnection_def using assms(1) by (rule reachable.delete)
  ultimately show ?thesis
    using assms single_driver_reachable unfolding single_driver_def inbound_def by blast
qed

lemma reachable_two_adders: "reachable two_adders"
  unfolding two_adders_def by (intro reachable.place reachable.start)

lemma reachable_adders_connected: "reachable adders_connected"
  unfolding adders_connected_def connect_def using reachable_two_adders
  by (rule reachable.release)

theorem input_has_at_most_one_driver_witness:
  "length (inbound adders_connected adder_1 ''a'') = 1
   \<and> length (inbound (fst (connect adder_0 ''sum'' adder_1 ''a'' adders_connected)) adder_1 ''a'') \<le> 1"
proof -
  have "''a'' \<in> set (inputs (ports adder_1))"
    by code_simp
  from input_has_at_most_one_driver[OF reachable_adders_connected this,
      of adder_0 "''sum''" adder_1 "''a''"]
  have "length (inbound (fst (connect adder_0 ''sum'' adder_1 ''a'' adders_connected))
          adder_1 ''a'') \<le> 1"
    by blast
  moreover have "length (inbound adders_connected adder_1 ''a'') = 1"
    by code_simp
  ultimately show ?thesis
    by simp
qed

subsection \<open>A second driver is refused\<close>




















subsection \<open>Errors while a file is parsed\<close>



subsection \<open>A name that is declared twice\<close>






text \<open>
  Within one direction, a declaration with a width defeats the test that keeps a name
  single: the test looks for the bare name among entries that carry the width.
\<close>

lemma width_defeats_the_test:
  "parse_module_body ''input [7:0] a; input [3:0] a;'' [''a''] = ([''a[7:0]'', ''a[3:0]''], [], [])"
  by code_simp

subsection \<open>The matcher on the patterns of the program\<close>

lemma first_match_Seq:
  "first_match a st st1 \<Longrightarrow> first_match b st1 st2 \<Longrightarrow> first_match (Seq a b) st st2"
  by (auto simp: first_match_def)

lemma first_match_Atom: "cmatch c x \<Longrightarrow> first_match (Atom c) (g, x # xs) (g, xs)"
  by (simp add: first_match_def)

lemma first_match_Group:
  "first_match a (g, s) (g', s') \<Longrightarrow>
   first_match (Group n a) (g, s) ((n, take (length s - length s') s) # g', s')"
  by (auto simp: first_match_def)

lemma first_match_Opt: "first_match a st st' \<Longrightarrow> first_match (Opt a) st st'"
  by (auto simp: first_match_def Opt_def)

lemma first_match_Opt_skip: "ms a st = [] \<Longrightarrow> first_match (Opt a) st st"
  by (simp add: first_match_def Opt_def)

lemma first_match_Star_Atom:
  assumes "list_all (cmatch c) n" and "t = [] \<or> \<not> cmatch c (hd t)"
  shows "first_match (Star (Atom c)) (g, n @ t) (g, t)"
  using assms(1)
proof (induction n)
  case Nil
  from assms(2) have "ms (Atom c) (g, t) = []"
    by (cases t) auto
  then show ?case
    by (simp add: first_match_def ms_Star)
next
  case (Cons x n)
  then obtain others where "ms (Star (Atom c)) (g, n @ t) = (g, t) # others"
    by (auto simp: first_match_def)
  with Cons.prems show ?case
    by (simp add: first_match_def ms_Star)
qed

lemma first_match_Plus_Atom:
  assumes "n \<noteq> []" and "list_all (cmatch c) n" and "t = [] \<or> \<not> cmatch c (hd t)"
  shows "first_match (Plus (Atom c)) (g, n @ t) (g, t)"
proof -
  from assms(1) obtain x n' where n: "n = x # n'"
    by (cases n) auto
  with assms(2) have "cmatch c x" "list_all (cmatch c) n'"
    by simp_all
  then show ?thesis
    unfolding Plus_def n
    using first_match_Seq[OF first_match_Atom first_match_Star_Atom[OF _ assms(3)]]
    by simp
qed

lemma match_at_first:
  "first_match r ([], s) (g, s') \<Longrightarrow>
   match_at r s = Some \<lparr>groups = g, matched = take (length s - length s') s, after = s'\<rparr>"
  by (auto simp: first_match_def match_at_def)

lemma search_at_start:
  "match_at r s = Some m \<Longrightarrow> search r s = Some (0, m)"
  by (cases s) simp_all

lemma ms_Star_Atom_parts:
  "st' \<in> set (ms (Star (Atom c)) (g, s)) \<Longrightarrow>
   \<exists>w. list_all (cmatch c) w \<and> s = w @ snd st' \<and> fst st' = g"
proof (induction s arbitrary: st')
  case Nil
  then show ?case
    by (simp add: ms_Star)
next
  case (Cons x s)
  show ?case
  proof (cases "st' = (g, x # s)")
    case True
    then show ?thesis
      by (intro exI[of _ "[]"]) simp
  next
    case False
    with Cons.prems have x: "cmatch c x" and "st' \<in> set (ms (Star (Atom c)) (g, s))"
      by (auto simp: ms_Star split: if_splits)
    with Cons.IH obtain w where "list_all (cmatch c) w" "s = w @ snd st'" "fst st' = g"
      by blast
    with x show ?thesis
      by (intro exI[of _ "x # w"]) simp
  qed
qed

lemma ms_Plus_Atom_parts:
  assumes "st' \<in> set (ms (Plus (Atom c)) (g, s))"
  shows "\<exists>w. w \<noteq> [] \<and> list_all (cmatch c) w \<and> s = w @ snd st' \<and> fst st' = g"
proof -
  from assms obtain x xs where s: "s = x # xs" and x: "cmatch c x"
    and "st' \<in> set (ms (Star (Atom c)) (g, xs))"
    by (cases s) (auto simp: Plus_def split: if_splits)
  with ms_Star_Atom_parts obtain w where "list_all (cmatch c) w" "xs = w @ snd st'" "fst st' = g"
    by blast
  with s x show ?thesis
    by (intro exI[of _ "x # w"]) simp
qed

lemma ms_keeps_other_groups:
  "st' \<in> set (ms r st) \<Longrightarrow> k \<notin> groups_of r \<Longrightarrow> map_of (fst st') k = map_of (fst st) k"
proof (induction r st arbitrary: st' rule: ms.induct)
  case (4 a b st)
  then obtain st1 where "st1 \<in> set (ms a st)" "st' \<in> set (ms b st1)"
    by auto
  with 4 show ?case
    by (metis UnCI groups_of.simps(3))
next
  case (6 a g s)
  from "6.prems"(1) consider "st' = (g, s)"
    | st1 where "st1 \<in> set (ms a (g, s))" "length (snd st1) < length s"
        "st' \<in> set (ms (Star a) st1)"
    by (auto simp: ms_Star split: if_splits)
  then show ?case
  proof cases
    case 1
    then show ?thesis by simp
  next
    case 2
    with "6.IH"(1)[of st1] "6.IH"(2)[of st1 st'] "6.prems"(2) show ?thesis
      by simp
  qed
next
  case (7 a g s)
  from "7.prems"(1) consider "st' = (g, s)"
    | st1 where "st1 \<in> set (ms a (g, s))" "length (snd st1) < length s"
        "st' \<in> set (ms (LazyStar a) st1)"
    by (auto simp: ms_LazyStar split: if_splits)
  then show ?case
  proof cases
    case 1
    then show ?thesis by simp
  next
    case 2
    with "7.IH"(1)[of st1] "7.IH"(2)[of st1 st'] "7.prems"(2) show ?thesis
      by simp
  qed
qed (auto split: if_splits)

lemma search_match:
  "search r s = Some im \<Longrightarrow> \<exists>t. (groups (snd im), after (snd im)) \<in> set (ms r ([], t))"
proof (induction s arbitrary: im)
  case Nil
  then show ?case
    using match_at_after by fastforce
next
  case (Cons c cs)
  show ?case
  proof (cases "match_at r (c # cs)")
    case None
    with Cons.prems obtain im' where "search r cs = Some im'" "snd im = snd im'"
      by auto
    with Cons.IH[of im'] show ?thesis
      by simp
  next
    case (Some m)
    with Cons.prems have "snd im = m"
      by auto
    with Some match_at_after show ?thesis
      by fastforce
  qed
qed

subsection \<open>The ports of an instance\<close>

lemma not_word_bracket: "\<not> is_word CHR ''[''"
  by (simp add: is_word_def)

lemma search_port_entry:
  assumes "well_formed_entry e"
  shows "\<exists>m. search port_pattern (entry_text e) = Some (0, m)
             \<and> group_text m 1 = fst e \<and> group_text m 2 = entry_width e"
proof (cases e)
  case (Pair n range)
  let ?name = "Group 1 (Plus (Atom Word))"
  let ?dim = "Seqs [Atom (Lit CHR ''[''), Group 2 (Plus (Atom (NoneOf '']''))), Atom (Lit CHR '']'')]"
  show ?thesis
  proof (cases range)
    case None
    with assms Pair have n: "n \<noteq> []" "list_all (cmatch Word) n"
      by (simp_all add: is_identifier_def list_all_iff)
    have "first_match (Plus (Atom Word)) ([], n @ []) ([], [])"
      using n by (intro first_match_Plus_Atom) simp_all
    then have "first_match ?name ([], n) ([(1, n)], [])"
      using first_match_Group[of "Plus (Atom Word)" "[]" n "[]" "[]" 1] by simp
    moreover have "first_match (Opt ?dim) ([(1, n)], []) ([(1, n)], [])"
      by (intro first_match_Opt_skip) simp
    ultimately have "first_match port_pattern ([], n) ([(1, n)], [])"
      unfolding port_pattern_def by (rule first_match_Seq)
    then have "search port_pattern n
        = Some (0, \<lparr>groups = [(1, n)], matched = take (length n - length ([] :: string)) n,
                    after = []\<rparr>)"
      by (intro search_at_start match_at_first)
    with Pair None show ?thesis
      by (simp add: group_text_def group_def)
  next
    case (Some r)
    with assms Pair have n: "n \<noteq> []" "list_all (cmatch Word) n"
      and r: "r \<noteq> []" "list_all (cmatch (NoneOf '']'')) r"
      by (auto simp: is_identifier_def list_all_iff)
    let ?t = "CHR ''['' # r @ '']''"
    have "first_match (Plus (Atom Word)) ([], n @ ?t) ([], ?t)"
      using n by (intro first_match_Plus_Atom) (simp_all add: not_word_bracket)
    then have name: "first_match ?name ([], n @ ?t) ([(1, n)], ?t)"
      using first_match_Group[of "Plus (Atom Word)" "[]" "n @ ?t" "[]" ?t 1] by simp
    have "first_match (Plus (Atom (NoneOf '']''))) ([(1, n)], r @ '']'') ([(1, n)], '']'')"
      using r by (intro first_match_Plus_Atom) simp_all
    then have "first_match (Group 2 (Plus (Atom (NoneOf '']''))))
        ([(1, n)], r @ '']'') ([(2, r), (1, n)], '']'')"
      using first_match_Group[of "Plus (Atom (NoneOf '']''))" "[(1, n)]" "r @ '']''"
          "[(1, n)]" "'']''" 2]
      by simp
    then have "first_match ?dim ([(1, n)], ?t) ([(2, r), (1, n)], [])"
      by (auto intro!: first_match_Seq first_match_Atom)
    then have "first_match (Opt ?dim) ([(1, n)], ?t) ([(2, r), (1, n)], [])"
      by (rule first_match_Opt)
    with name have "first_match port_pattern ([], n @ ?t) ([(2, r), (1, n)], [])"
      unfolding port_pattern_def by (rule first_match_Seq)
    then have "search port_pattern (n @ ?t)
        = Some (0, \<lparr>groups = [(2, r), (1, n)],
                    matched = take (length (n @ ?t) - length ([] :: string)) (n @ ?t),
                    after = []\<rparr>)"
      by (intro search_at_start match_at_first)
    with Pair Some show ?thesis
      by (simp add: group_text_def group_def)
  qed
qed

lemma search_port_identifier:
  assumes "search port_pattern p = Some im"
  shows "is_identifier (group_text (snd im) 1)"
proof -
  let ?dim = "Seqs [Atom (Lit CHR ''[''), Group 2 (Plus (Atom (NoneOf '']''))), Atom (Lit CHR '']'')]"
  from search_match[OF assms] obtain t where
    "(groups (snd im), after (snd im)) \<in> set (ms port_pattern ([], t))"
    by blast
  then obtain st0 st' where st0: "st0 \<in> set (ms (Plus (Atom Word)) ([], t))"
    and st': "st' \<in> set (ms (Opt ?dim) ((1, take (length t - length (snd st0)) t) # fst st0, snd st0))"
    and im: "groups (snd im) = fst st'"
    by (auto simp: port_pattern_def)
  from ms_Plus_Atom_parts[OF st0] obtain w where w: "w \<noteq> []" "list_all (cmatch Word) w"
    "t = w @ snd st0" "fst st0 = []"
    by auto
  have "1 \<notin> groups_of (Opt ?dim)"
    by (simp add: Opt_def Plus_def)
  from ms_keeps_other_groups[OF st' this] w(3) have "map_of (fst st') 1 = Some w"
    by simp
  with im w(1,2) show ?thesis
    by (simp add: group_text_def group_def is_identifier_def list_all_iff)
qed

lemma search_further: "match_at r s \<noteq> None \<Longrightarrow> search r (pre @ s) \<noteq> None"
proof (induction pre)
  case Nil
  then show ?case
    by (cases s) auto
next
  case (Cons c pre)
  then show ?case
    by (cases "match_at r (c # pre @ s)") auto
qed

lemma match_at_word: "is_word x \<Longrightarrow> match_at port_pattern (x # s) \<noteq> None"
proof -
  assume x: "is_word x"
  let ?n = "x # takeWhile is_word s" and ?t = "dropWhile is_word s"
  let ?dim = "Seqs [Atom (Lit CHR ''[''), Group 2 (Plus (Atom (NoneOf '']''))), Atom (Lit CHR '']'')]"
  have "?t = [] \<or> \<not> cmatch Word (hd ?t)"
    using hd_dropWhile[of is_word s] by auto
  with x have "first_match (Plus (Atom Word)) ([], ?n @ ?t) ([], ?t)"
    by (intro first_match_Plus_Atom) (simp_all add: list_all_iff, meson set_takeWhileD)
  then obtain others where "ms (Plus (Atom Word)) ([], x # s) = ([], ?t) # others"
    by (auto simp: first_match_def)
  then have "ms port_pattern ([], x # s) \<noteq> []"
    by (simp add: port_pattern_def Opt_def)
  then show ?thesis
    by (auto simp: match_at_def split: list.splits)
qed

lemma search_port_None: "search port_pattern p = None \<Longrightarrow> \<not> list_ex is_word p"
proof
  assume none: "search port_pattern p = None" and "list_ex is_word p"
  then obtain pre x s where "p = pre @ x # s" "is_word x"
    by (auto simp: list_ex_iff in_set_conv_decomp)
  with search_further[where pre = pre, OF match_at_word[of x s]] none show False
    by simp
qed

lemma port_widths_loop_entries:
  "list_all well_formed_entry es \<Longrightarrow>
   snd (port_widths_loop (map entry_text es) widths new_ports) = new_ports @ map fst es
   \<and> map_of (fst (port_widths_loop (map entry_text es) widths new_ports))
       = map_of (rev (map (\<lambda>e. (fst e, entry_width e)) es) @ widths)"
proof (induction es arbitrary: widths new_ports)
  case Nil
  then show ?case by simp
next
  case (Cons e es)
  then have "well_formed_entry e" and rest: "list_all well_formed_entry es"
    by simp_all
  from search_port_entry[OF this(1)] obtain m where
    m: "search port_pattern (entry_text e) = Some (0, m)"
    "group_text m 1 = fst e" "group_text m 2 = entry_width e"
    by blast
  from Cons.IH[OF rest, of "dict_set widths (fst e) (entry_width e)" "new_ports @ [fst e]"] m
  show ?case
    by (auto simp: map_of_dict_set fun_eq_iff map_add_def split: option.splits)
qed

lemma port_widths_loop_names:
  "list_all (\<lambda>p. is_identifier p \<or> (p \<in> S \<and> \<not> list_ex is_word p)) new_ports \<Longrightarrow> set ps \<subseteq> S \<Longrightarrow>
   list_all (\<lambda>p. is_identifier p \<or> (p \<in> S \<and> \<not> list_ex is_word p))
     (snd (port_widths_loop ps widths new_ports))"
proof (induction ps arbitrary: widths new_ports)
  case Nil
  then show ?case by simp
next
  case (Cons p ps)
  show ?case
  proof (cases "search port_pattern p")
    case None
    with Cons.prems search_port_None[OF None] Cons.IH[of "new_ports @ [p]" "dict_set widths p []"]
    show ?thesis
      by simp
  next
    case (Some im)
    with Cons.prems search_port_identifier[OF Some]
      Cons.IH[of "new_ports @ [group_text (snd im) 1]"
        "dict_set widths (group_text (snd im) 1) (group_text (snd im) 2)"]
    show ?thesis
      by simp
  qed
qed

text \<open>
  Claim C10. When an instance is made from an interface whose port entries are names or
  names followed by a range in brackets, the port lists of the instance are the bare names,
  in the order of the entries, and the ranges are in the dictionary of widths under the
  bare names (the empty text for an entry without a range; for a name that several entries
  have, the range of the last of them). For an arbitrary interface, every port name of
  the instance is an identifier, unless the entry has no \<^verbatim>\<open>\w\<close> character at all: such
  an entry is kept as it is.
\<close>

theorem instance_ports_are_bare_names:
  assumes "list_all well_formed_entry ins" and "list_all well_formed_entry outs"
  shows "ports (new_ModuleItem nm \<lparr>inputs = map entry_text ins, outputs = map entry_text outs\<rparr>)
           = \<lparr>inputs = map fst ins, outputs = map fst outs\<rparr>
         \<and> list_all is_identifier (map fst ins @ map fst outs)
         \<and> map_of (port_widths (new_ModuleItem nm
                \<lparr>inputs = map entry_text ins, outputs = map entry_text outs\<rparr>))
             = map_of (rev (map (\<lambda>e. (fst e, entry_width e)) (ins @ outs)))
         \<and> list_all (\<lambda>p. is_identifier p
                          \<or> (p \<in> set (inputs prts @ outputs prts) \<and> \<not> list_ex is_word p))
             (inputs (ports (new_ModuleItem nm prts)) @ outputs (ports (new_ModuleItem nm prts)))"
proof -
  let ?i = "port_widths_loop (map entry_text ins) [] []"
  let ?o = "port_widths_loop (map entry_text outs) (fst ?i) []"
  have i: "snd ?i = map fst ins"
    "map_of (fst ?i) = map_of (rev (map (\<lambda>e. (fst e, entry_width e)) ins))"
    using port_widths_loop_entries[OF assms(1), of "[]" "[]"] by simp_all
  have o: "snd ?o = map fst outs"
    "map_of (fst ?o) = map_of (rev (map (\<lambda>e. (fst e, entry_width e)) outs) @ fst ?i)"
    using port_widths_loop_entries[OF assms(2), of "fst ?i" "[]"] by simp_all
  have "map_of (fst ?o) = map_of (rev (map (\<lambda>e. (fst e, entry_width e)) (ins @ outs)))"
    using o(2) i(2) by (simp add: map_add_def fun_eq_iff)
  then have entries: "ports (new_ModuleItem nm
        \<lparr>inputs = map entry_text ins, outputs = map entry_text outs\<rparr>)
      = \<lparr>inputs = map fst ins, outputs = map fst outs\<rparr>"
    "map_of (port_widths (new_ModuleItem nm
        \<lparr>inputs = map entry_text ins, outputs = map entry_text outs\<rparr>))
      = map_of (rev (map (\<lambda>e. (fst e, entry_width e)) (ins @ outs)))"
    using i(1) o(1) by (simp_all add: new_ModuleItem_def parse_port_widths_def Let_def)
  have "is_identifier (fst e)" if "well_formed_entry e" for e
    using that by (cases e; cases "snd e") auto
  with assms have names: "list_all is_identifier (map fst ins @ map fst outs)"
    by (auto simp: list_all_iff)
  let ?S = "set (inputs prts @ outputs prts)"
  let ?pi = "port_widths_loop (inputs prts) [] []"
  let ?po = "port_widths_loop (outputs prts) (fst ?pi) []"
  have "list_all (\<lambda>p. is_identifier p \<or> (p \<in> ?S \<and> \<not> list_ex is_word p)) (snd ?pi)"
    by (intro port_widths_loop_names) auto
  moreover have "list_all (\<lambda>p. is_identifier p \<or> (p \<in> ?S \<and> \<not> list_ex is_word p)) (snd ?po)"
    by (intro port_widths_loop_names) auto
  ultimately have "list_all (\<lambda>p. is_identifier p \<or> (p \<in> ?S \<and> \<not> list_ex is_word p))
      (inputs (ports (new_ModuleItem nm prts)) @ outputs (ports (new_ModuleItem nm prts)))"
    by (simp add: new_ModuleItem_def parse_port_widths_def Let_def)
  with entries names show ?thesis
    by blast
qed

theorem instance_ports_are_bare_names_witness:
  "ports (new_ModuleItem ''adder'' adder_interface) = \<lparr>inputs = [''a'', ''b''], outputs = [''sum'']\<rparr>
   \<and> map_of (port_widths (new_ModuleItem ''adder'' adder_interface))
       = map_of [(''sum'', ''4:0''), (''b'', ''3:0''), (''a'', ''3:0'')]"
proof -
  let ?ins = "[(''a'', Some ''3:0''), (''b'', Some ''3:0'')]" and ?outs = "[(''sum'', Some ''4:0'')]"
  have "list_all well_formed_entry ?ins" "list_all well_formed_entry ?outs"
    by (simp_all add: is_identifier_def is_word_def)
  from instance_ports_are_bare_names[OF this, of "''adder''"] show ?thesis
    by (simp add: adder_interface_def)
qed

subsection \<open>A name with a range of its own\<close>





















end
